theory Spec2Isabelle
  imports Main
begin

section \<open>JavaScript values\<close>

text \<open>
  The data that travels between the backend, the React state and the browser storage is
  JSON data read by JavaScript code. \<open>jsval\<close> is that data together with
  \<open>undefined\<close>, which a read of a missing property produces. An object is the list of
  its properties in insertion order; a read takes the first binding of a key.
  Numbers are integers (credit balances and counters); fractional numbers are outside
  the model. Strings are \<open>char list\<close>.
\<close>

datatype jsval =
    JUndefined
  | JNull
  | JBool bool
  | JNum int
  | JStr string
  | JArr "jsval list"
  | JObj "(string \<times> jsval) list"

text \<open>What a \<open>throw\<close> carries: the error axios rejects with (its \<open>response\<close> is present
  when the backend answered), the \<open>TypeError\<close> of a property read on \<open>null\<close> or
  \<open>undefined\<close>, and the \<open>SyntaxError\<close> of \<open>JSON.parse\<close>.\<close>

record response =
  status :: int
  data :: jsval

datatype js_error =
    AxiosError "response option"
  | TypeError
  | SyntaxError

text \<open>\<open>if (v)\<close>, \<open>v ? a : b\<close> and \<open>v || w\<close> test this.\<close>

fun truthy :: "jsval \<Rightarrow> bool" where
  "truthy JUndefined = False"
| "truthy JNull = False"
| "truthy (JBool b) = b"
| "truthy (JNum n) = (n \<noteq> 0)"
| "truthy (JStr s) = (s \<noteq> [])"
| "truthy (JArr xs) = True"
| "truthy (JObj kvs) = True"

definition js_or :: "jsval \<Rightarrow> jsval \<Rightarrow> jsval" where
  "js_or a b = (if truthy a then a else b)"

text \<open>\<open>v?.k\<close>: \<open>undefined\<close> on \<open>null\<close> and \<open>undefined\<close>, the property otherwise
  (none of the keys the program reads is a built-in property of a string or an array).\<close>

fun opt_prop :: "jsval \<Rightarrow> string \<Rightarrow> jsval" where
  "opt_prop (JObj kvs) k = (case map_of kvs k of None \<Rightarrow> JUndefined | Some v \<Rightarrow> v)"
| "opt_prop v k = JUndefined"

text \<open>\<open>v.k\<close>: a \<open>TypeError\<close> on \<open>null\<close> and \<open>undefined\<close>.\<close>

fun get_prop :: "jsval \<Rightarrow> string \<Rightarrow> js_error + jsval" where
  "get_prop JUndefined k = Inl TypeError"
| "get_prop JNull k = Inl TypeError"
| "get_prop v k = Inr (opt_prop v k)"

text \<open>\<open>error.response\<close>, \<open>error.response?.status\<close> and \<open>error.response?.data?.error\<close>
  of a caught error.\<close>

fun error_response :: "js_error \<Rightarrow> response option" where
  "error_response (AxiosError r) = r"
| "error_response TypeError = None"
| "error_response SyntaxError = None"

definition error_status :: "js_error \<Rightarrow> int option" where
  "error_status e = map_option status (error_response e)"

definition error_data_error :: "js_error \<Rightarrow> jsval" where
  "error_data_error e =
     (case error_response e of None \<Rightarrow> JUndefined | Some r \<Rightarrow> opt_prop (data r) ''error'')"

subsection \<open>Strings of values\<close>

fun show_nat :: "nat \<Rightarrow> string" where
  "show_nat n =
     (if n < 10 then [''0123456789'' ! n]
      else show_nat (n div 10) @ [''0123456789'' ! (n mod 10)])"

definition show_int :: "int \<Rightarrow> string" where
  "show_int i = (if i < 0 then CHR ''-'' # show_nat (nat (- i)) else show_nat (nat i))"

fun join :: "string \<Rightarrow> string list \<Rightarrow> string" where
  "join sep [] = []"
| "join sep [x] = x"
| "join sep (x # y # ys) = x @ sep @ join sep (y # ys)"

text \<open>The string a template literal or \<open>localStorage.setItem\<close> makes of a value.\<close>

fun to_string :: "jsval \<Rightarrow> string" where
  "to_string JUndefined = ''undefined''"
| "to_string JNull = ''null''"
| "to_string (JBool b) = (if b then ''true'' else ''false'')"
| "to_string (JNum n) = show_int n"
| "to_string (JStr s) = s"
| "to_string (JArr xs) =
     join '','' (map (\<lambda>x. if x = JNull \<or> x = JUndefined then [] else to_string x) xs)"
| "to_string (JObj kvs) = ''[object Object]''"

text \<open>\<open>JSON.stringify\<close>: \<open>None\<close> is its result \<open>undefined\<close>. A property whose value
  is \<open>undefined\<close> is left out of an object and is \<open>null\<close> in an array.\<close>

definition hex_digit :: "nat \<Rightarrow> char" where
  "hex_digit n = ''0123456789abcdef'' ! (n mod 16)"

definition escape_char :: "char \<Rightarrow> string" where
  "escape_char c =
     (if c = CHR 0x22 then [CHR 0x5C, CHR 0x22]
      else if c = CHR 0x5C then [CHR 0x5C, CHR 0x5C]
      else if c = CHR 0x08 then [CHR 0x5C, CHR ''b'']
      else if c = CHR 0x0C then [CHR 0x5C, CHR ''f'']
      else if c = CHR 0x0A then [CHR 0x5C, CHR ''n'']
      else if c = CHR 0x0D then [CHR 0x5C, CHR ''r'']
      else if c = CHR 0x09 then [CHR 0x5C, CHR ''t'']
      else if (of_char c :: nat) < 32
        then [CHR 0x5C, CHR ''u'', CHR ''0'', CHR ''0'',
              hex_digit (of_char c div 16), hex_digit (of_char c)]
      else [c])"

definition quote :: "string \<Rightarrow> string" where
  "quote s = CHR 0x22 # concat (map escape_char s) @ [CHR 0x22]"

fun stringify :: "jsval \<Rightarrow> string option" where
  "stringify JUndefined = None"
| "stringify JNull = Some ''null''"
| "stringify (JBool b) = Some (if b then ''true'' else ''false'')"
| "stringify (JNum n) = Some (show_int n)"
| "stringify (JStr s) = Some (quote s)"
| "stringify (JArr xs) =
     Some (''['' @ join '',''
        (map (\<lambda>x. case stringify x of None \<Rightarrow> ''null'' | Some t \<Rightarrow> t) xs) @ '']'')"
| "stringify (JObj kvs) =
     Some (''{'' @ join '',''
        (concat (map (\<lambda>(k, v). case stringify v of None \<Rightarrow> []
                                  | Some t \<Rightarrow> [quote k @ '':'' @ t]) kvs)) @ ''}'')"

declare show_nat.simps [simp del]

section \<open>The browser, the session context and the dashboard\<close>

text \<open>
  One record holds everything the code reads and writes: the browser's part
  (\<open>localStorage\<close>, \<open>window.location.href\<close>, the requests that left through axios,
  the messages of \<open>console.error\<close> and of \<open>alert\<close>), the three state hooks of
  \<open>AuthProvider\<close> and the six of \<open>Dashboard\<close>. A state setter is a record update;
  an \<open>async\<close> function takes the state and returns the new state with either the value
  it resolves to (\<open>Inr\<close>) or the error it rejects with (\<open>Inl\<close>). The storage is
  taken as unbounded: \<open>setItem\<close> does not fail.
\<close>

datatype jsfile = File (file_name: string) (file_size: nat)

datatype form_entry = FileEntry jsfile | TextEntry string

datatype payload = NoBody | Json jsval | FormData "(string \<times> form_entry) list"

record request =
  http_method :: string
  url :: string
  headers :: "string \<rightharpoonup> string"
  body :: payload

record app =
  localStorage :: "string \<rightharpoonup> string"
  location_href :: string
  requests :: "request list"
  console :: "string list"
  alerts :: "string list"
  user :: jsval
  loading :: bool
  isAuthenticated :: bool
  files :: "jsfile list"
  analyzing :: bool
  analysisResult :: jsval
  error :: jsval
  creditPackages :: jsval
  loadingPackages :: bool

text \<open>The backend is the environment: it answers a request with a response, or not at
  all (no connection, or the client-wide timeout of 30000 ms ran out).\<close>

datatype reply = Reply response | NoReply

type_synonym backend = "request \<Rightarrow> reply"

definition getItem :: "app \<Rightarrow> string \<Rightarrow> string option" where
  "getItem s k = localStorage s k"

definition setItem :: "string \<Rightarrow> string \<Rightarrow> app \<Rightarrow> app" where
  "setItem k v s = s\<lparr>localStorage := (localStorage s)(k \<mapsto> v)\<rparr>"

definition removeItem :: "string \<Rightarrow> app \<Rightarrow> app" where
  "removeItem k s = s\<lparr>localStorage := (localStorage s)(k := None)\<rparr>"

definition console_error :: "string \<Rightarrow> app \<Rightarrow> app" where
  "console_error m s = s\<lparr>console := console s @ [m]\<rparr>"

section \<open>The API client (lib/api)\<close>

definition baseURL :: string where
  "baseURL = ''/api''"

definition default_headers :: "string \<rightharpoonup> string" where
  "default_headers = [''Content-Type'' \<mapsto> ''application/json'']"

text \<open>The request interceptor: \<open>if (token)\<close> holds for a stored string that is not
  empty.\<close>

definition request_interceptor :: "app \<Rightarrow> request \<Rightarrow> request" where
  "request_interceptor s config =
     (case getItem s ''lintiq_token'' of
        None \<Rightarrow> config
      | Some token \<Rightarrow>
          if token \<noteq> [] then
            config\<lparr>headers := (headers config)(''Authorization'' \<mapsto> ''Bearer '' @ token)\<rparr>
          else config)"

text \<open>The response interceptor: a response passes; an error is rejected again, after
  the storage is cleared and the page is sent to the login view when its status is 401.\<close>

definition response_interceptor :: "response \<Rightarrow> app \<Rightarrow> app \<times> (js_error + response)" where
  "response_interceptor r s = (s, Inr r)"

definition response_error_interceptor :: "js_error \<Rightarrow> app \<Rightarrow> app \<times> (js_error + response)" where
  "response_error_interceptor e s =
     (if error_status e = Some 401 then
        ((removeItem ''lintiq_user'' (removeItem ''lintiq_token'' s))
            \<lparr>location_href := ''/login''\<rparr>, Inl e)
      else (s, Inl e))"

text \<open>What axios does with a request of the instance: the instance's headers under the
  call's own, the request interceptor, the dispatch (logged in \<open>requests\<close>), and the
  response interceptors. A status from 200 to 299 resolves, any other status and a
  missing reply reject.\<close>

definition validateStatus :: "int \<Rightarrow> bool" where
  "validateStatus st = (200 \<le> st \<and> st < 300)"

definition outgoing :: "app \<Rightarrow> request \<Rightarrow> request" where
  "outgoing s config =
     request_interceptor s
       (config\<lparr>url := baseURL @ url config, headers := default_headers ++ headers config\<rparr>)"

definition api_request :: "backend \<Rightarrow> request \<Rightarrow> app \<Rightarrow> app \<times> (js_error + response)" where
  "api_request b config s =
     (let sent = outgoing s config;
          s1 = s\<lparr>requests := requests s @ [sent]\<rparr>
      in case b sent of
           NoReply \<Rightarrow> response_error_interceptor (AxiosError None) s1
         | Reply r \<Rightarrow>
             if validateStatus (status r) then response_interceptor r s1
             else response_error_interceptor (AxiosError (Some r)) s1)"

definition api_get :: "backend \<Rightarrow> string \<Rightarrow> app \<Rightarrow> app \<times> (js_error + response)" where
  "api_get b path =
     api_request b \<lparr>http_method = ''GET'', url = path, headers = Map.empty, body = NoBody\<rparr>"

definition api_post ::
  "backend \<Rightarrow> string \<Rightarrow> payload \<Rightarrow> (string \<rightharpoonup> string) \<Rightarrow> app \<Rightarrow> app \<times> (js_error + response)" where
  "api_post b path d hs =
     api_request b \<lparr>http_method = ''POST'', url = path, headers = hs, body = d\<rparr>"

definition api_put :: "backend \<Rightarrow> string \<Rightarrow> payload \<Rightarrow> app \<Rightarrow> app \<times> (js_error + response)" where
  "api_put b path d =
     api_request b \<lparr>http_method = ''PUT'', url = path, headers = Map.empty, body = d\<rparr>"

subsection \<open>The endpoints\<close>

definition auth_register :: "backend \<Rightarrow> jsval \<Rightarrow> app \<Rightarrow> app \<times> (js_error + response)" where
  "auth_register b userData = api_post b ''/auth/register'' (Json userData) Map.empty"

definition auth_login :: "backend \<Rightarrow> jsval \<Rightarrow> app \<Rightarrow> app \<times> (js_error + response)" where
  "auth_login b credentials = api_post b ''/auth/login'' (Json credentials) Map.empty"

definition auth_demoLogin :: "backend \<Rightarrow> app \<Rightarrow> app \<times> (js_error + response)" where
  "auth_demoLogin b = api_post b ''/auth/demo'' NoBody Map.empty"

definition auth_verify :: "backend \<Rightarrow> app \<Rightarrow> app \<times> (js_error + response)" where
  "auth_verify b = api_post b ''/auth/verify'' NoBody Map.empty"

definition auth_logout :: "backend \<Rightarrow> app \<Rightarrow> app \<times> (js_error + response)" where
  "auth_logout b = api_post b ''/auth/logout'' NoBody Map.empty"

definition payments_getPackages :: "backend \<Rightarrow> app \<Rightarrow> app \<times> (js_error + response)" where
  "payments_getPackages b = api_get b ''/payments/packages''"

definition payments_simulatePurchase ::
  "backend \<Rightarrow> jsval \<Rightarrow> app \<Rightarrow> app \<times> (js_error + response)" where
  "payments_simulatePurchase b packageId =
     api_post b ''/payments/simulate-purchase'' (Json (JObj [(''package_id'', packageId)]))
       Map.empty"

definition analysis_analyzeFiles ::
  "backend \<Rightarrow> (string \<times> form_entry) list \<Rightarrow> app \<Rightarrow> app \<times> (js_error + response)" where
  "analysis_analyzeFiles b formData =
     api_post b ''/analysis/analyze'' (FormData formData)
       [''Content-Type'' \<mapsto> ''multipart/form-data'']"

definition analysis_demoAnalysis :: "backend \<Rightarrow> app \<Rightarrow> app \<times> (js_error + response)" where
  "analysis_demoAnalysis b = api_post b ''/analysis/demo'' NoBody Map.empty"

subsection \<open>The storage helpers\<close>

definition setAuthToken :: "jsval \<Rightarrow> app \<Rightarrow> app" where
  "setAuthToken token s =
     (if truthy token then setItem ''lintiq_token'' (to_string token) s
      else removeItem ''lintiq_token'' s)"

definition getAuthToken :: "app \<Rightarrow> string option" where
  "getAuthToken s = getItem s ''lintiq_token''"

text \<open>\<open>JSON.stringify\<close> of a truthy value is a string (see \<open>stringify_truthy\<close> below);
  the branch for \<open>undefined\<close> is the string \<open>setItem\<close> would make of it.\<close>

definition setUser :: "jsval \<Rightarrow> app \<Rightarrow> app" where
  "setUser u s =
     (if truthy u then
        setItem ''lintiq_user''
          (case stringify u of None \<Rightarrow> to_string JUndefined | Some t \<Rightarrow> t) s
      else removeItem ''lintiq_user'' s)"

text \<open>\<open>JSON.parse\<close> is the platform's parser, a parameter of the model: it returns the
  value of a text or throws.\<close>

type_synonym json_parse = "string \<Rightarrow> js_error + jsval"

definition getUser :: "json_parse \<Rightarrow> app \<Rightarrow> js_error + jsval" where
  "getUser parse s =
     (case getItem s ''lintiq_user'' of
        None \<Rightarrow> Inr JNull
      | Some t \<Rightarrow> if t \<noteq> [] then parse t else Inr JNull)"

definition clearAuth :: "app \<Rightarrow> app" where
  "clearAuth s = removeItem ''lintiq_user'' (removeItem ''lintiq_token'' s)"

section \<open>Exceptions\<close>

text \<open>\<open>try { block } catch (e) { handler } finally { final }\<close>: the handler runs on the
  state the block left when it threw, \<open>final\<close> runs last on every path, and the
  statement yields what the block or the handler yielded. None of the \<open>finally\<close> blocks
  of the program returns or throws.\<close>

definition try_catch_finally ::
  "(app \<Rightarrow> app \<times> (js_error + 'a)) \<Rightarrow> (js_error \<Rightarrow> app \<Rightarrow> app \<times> (js_error + 'a)) \<Rightarrow>
   (app \<Rightarrow> app) \<Rightarrow> app \<Rightarrow> app \<times> (js_error + 'a)" where
  "try_catch_finally block handler final s =
     (case block s of
        (s1, Inl e) \<Rightarrow> (case handler e s1 of (s2, r) \<Rightarrow> (final s2, r))
      | (s1, Inr v) \<Rightarrow> (final s1, Inr v))"

section \<open>The session context (AuthProvider)\<close>

subsection \<open>initializeAuth\<close>



subsection \<open>login, register, demoLogin\<close>

definition login_body :: "backend \<Rightarrow> jsval \<Rightarrow> app \<Rightarrow> app \<times> (js_error + jsval)" where
  "login_body b credentials s =
     (case auth_login b credentials (s\<lparr>loading := True\<rparr>) of
        (s1, Inl e) \<Rightarrow> (s1, Inl e)
      | (s1, Inr response) \<Rightarrow>
          (case get_prop (data response) ''success'' of
             Inl e \<Rightarrow> (s1, Inl e)
           | Inr success \<Rightarrow>
               if truthy success then
                 (let userData = opt_prop (data response) ''user'';
                      token = opt_prop (data response) ''token''
                  in ((setUser userData (setAuthToken token s1))
                        \<lparr>user := userData, isAuthenticated := True\<rparr>,
                      Inr (JObj [(''success'', JBool True), (''user'', userData)])))
               else
                 (s1, Inr (JObj [(''success'', JBool False),
                                 (''error'', opt_prop (data response) ''error'')]))))"

definition login :: "backend \<Rightarrow> jsval \<Rightarrow> app \<Rightarrow> app \<times> (js_error + jsval)" where
  "login b credentials =
     try_catch_finally (login_body b credentials)
       (\<lambda>e s. (s, Inr (JObj [(''success'', JBool False),
                              (''error'', js_or (error_data_error e) (JStr ''Login failed''))])))
       (\<lambda>s. s\<lparr>loading := False\<rparr>)"

definition register_body :: "backend \<Rightarrow> jsval \<Rightarrow> app \<Rightarrow> app \<times> (js_error + jsval)" where
  "register_body b userData s =
     (case auth_register b userData (s\<lparr>loading := True\<rparr>) of
        (s1, Inl e) \<Rightarrow> (s1, Inl e)
      | (s1, Inr response) \<Rightarrow>
          (case get_prop (data response) ''success'' of
             Inl e \<Rightarrow> (s1, Inl e)
           | Inr success \<Rightarrow>
               if truthy success then
                 (let newUser = opt_prop (data response) ''user'';
                      token = opt_prop (data response) ''token''
                  in ((setUser newUser (setAuthToken token s1))
                        \<lparr>user := newUser, isAuthenticated := True\<rparr>,
                      Inr (JObj [(''success'', JBool True), (''user'', newUser)])))
               else
                 (s1, Inr (JObj [(''success'', JBool False),
                                 (''error'', opt_prop (data response) ''error'')]))))"

definition register :: "backend \<Rightarrow> jsval \<Rightarrow> app \<Rightarrow> app \<times> (js_error + jsval)" where
  "register b userData =
     try_catch_finally (register_body b userData)
       (\<lambda>e s. (s, Inr (JObj [(''success'', JBool False),
                              (''error'', js_or (error_data_error e) (JStr ''Registration failed''))])))
       (\<lambda>s. s\<lparr>loading := False\<rparr>)"

definition demoLogin_body :: "backend \<Rightarrow> app \<Rightarrow> app \<times> (js_error + jsval)" where
  "demoLogin_body b s =
     (case auth_demoLogin b (s\<lparr>loading := True\<rparr>) of
        (s1, Inl e) \<Rightarrow> (s1, Inl e)
      | (s1, Inr response) \<Rightarrow>
          (case get_prop (data response) ''success'' of
             Inl e \<Rightarrow> (s1, Inl e)
           | Inr success \<Rightarrow>
               if truthy success then
                 (let demoUser = opt_prop (data response) ''user'';
                      token = opt_prop (data response) ''token''
                  in ((setUser demoUser (setAuthToken token s1))
                        \<lparr>user := demoUser, isAuthenticated := True\<rparr>,
                      Inr (JObj [(''success'', JBool True), (''user'', demoUser)])))
               else
                 (s1, Inr (JObj [(''success'', JBool False),
                                 (''error'', opt_prop (data response) ''error'')]))))"

definition demoLogin :: "backend \<Rightarrow> app \<Rightarrow> app \<times> (js_error + jsval)" where
  "demoLogin b =
     try_catch_finally (demoLogin_body b)
       (\<lambda>e s. (s, Inr (JObj [(''success'', JBool False),
                              (''error'', js_or (error_data_error e) (JStr ''Demo login failed''))])))
       (\<lambda>s. s\<lparr>loading := False\<rparr>)"

subsection \<open>logout\<close>

definition logout_body :: "backend \<Rightarrow> app \<Rightarrow> app \<times> (js_error + jsval)" where
  "logout_body b s =
     (case auth_logout b s of
        (s1, Inl e) \<Rightarrow> (s1, Inl e)
      | (s1, Inr response) \<Rightarrow> (s1, Inr JUndefined))"

definition logout :: "backend \<Rightarrow> app \<Rightarrow> app \<times> (js_error + jsval)" where
  "logout b =
     try_catch_finally (logout_body b)
       (\<lambda>e s. (console_error ''Logout error:'' s, Inr JUndefined))
       (\<lambda>s. (clearAuth s)\<lparr>user := JNull, isAuthenticated := False\<rparr>)"

subsection \<open>updateUser, refreshUser\<close>

definition updateUser :: "jsval \<Rightarrow> app \<Rightarrow> app" where
  "updateUser updatedUser s = (setUser updatedUser s)\<lparr>user := updatedUser\<rparr>"

text \<open>The \<open>try\<close> block of \<open>refreshUser\<close> either returns the new profile (\<open>Some\<close>) or
  runs to its end (\<open>None\<close>); after it, the function returns \<open>user\<close>. That \<open>user\<close> is
  the constant of the render of \<open>AuthProvider\<close> that created the function, not the state
  at the time of the call: it is the parameter \<open>captured\<close>.\<close>

definition refreshUser_body :: "backend \<Rightarrow> app \<Rightarrow> app \<times> (js_error + jsval option)" where
  "refreshUser_body b s =
     (case auth_verify b s of
        (s1, Inl e) \<Rightarrow> (s1, Inl e)
      | (s1, Inr response) \<Rightarrow>
          (case get_prop (data response) ''success'' of
             Inl e \<Rightarrow> (s1, Inl e)
           | Inr success \<Rightarrow>
               if truthy success then
                 (let updatedUser = opt_prop (data response) ''user''
                  in ((setUser updatedUser s1)\<lparr>user := updatedUser\<rparr>, Inr (Some updatedUser)))
               else (s1, Inr None)))"

definition refreshUser :: "backend \<Rightarrow> jsval \<Rightarrow> app \<Rightarrow> app \<times> (js_error + jsval)" where
  "refreshUser b captured s =
     (case try_catch_finally (refreshUser_body b)
             (\<lambda>e s1. (console_error ''Failed to refresh user:'' s1, Inr None))
             (\<lambda>s1. s1) s of
        (s2, Inl e) \<Rightarrow> (s2, Inl e)
      | (s2, Inr (Some updatedUser)) \<Rightarrow> (s2, Inr updatedUser)
      | (s2, Inr None) \<Rightarrow> (s2, Inr captured))"

section \<open>The dashboard\<close>

definition handleFileSelect :: "jsfile list \<Rightarrow> app \<Rightarrow> app" where
  "handleFileSelect selectedFiles s =
     s\<lparr>files := selectedFiles, error := JStr [], analysisResult := JNull\<rparr>"

definition handleDrop :: "jsfile list \<Rightarrow> app \<Rightarrow> app" where
  "handleDrop droppedFiles s =
     s\<lparr>files := droppedFiles, error := JStr [], analysisResult := JNull\<rparr>"

text \<open>The handlers call the \<open>refreshUser\<close> their own render took from the context; the
  \<open>user\<close> it captured is the \<open>user\<close> of that render, and they discard what it returns.\<close>

text \<open>The form \<open>handleAnalyze\<close> fills: one \<open>files\<close> entry for each selected file, then
  \<open>use_ai\<close>.\<close>

definition analysis_formData :: "app \<Rightarrow> (string \<times> form_entry) list" where
  "analysis_formData s =
     map (\<lambda>f. (''files'', FileEntry f)) (files s) @
     [(''use_ai'',
       TextEntry (if truthy (opt_prop (user s) ''is_pro'') then ''true'' else ''false''))]"

definition handleAnalyze_body :: "backend \<Rightarrow> app \<Rightarrow> app \<times> (js_error + jsval)" where
  "handleAnalyze_body b s =
     (let formData = analysis_formData s
      in case analysis_analyzeFiles b formData s of
           (s1, Inl e) \<Rightarrow> (s1, Inl e)
         | (s1, Inr response) \<Rightarrow>
             (case get_prop (data response) ''success'' of
                Inl e \<Rightarrow> (s1, Inl e)
              | Inr success \<Rightarrow>
                  if truthy success then
                    (case refreshUser b (user s) (s1\<lparr>analysisResult := data response\<rparr>) of
                       (s2, Inl e) \<Rightarrow> (s2, Inl e)
                     | (s2, Inr u) \<Rightarrow> (s2, Inr JUndefined))
                  else (s1\<lparr>error := opt_prop (data response) ''error''\<rparr>, Inr JUndefined)))"

definition handleAnalyze_catch :: "js_error \<Rightarrow> app \<Rightarrow> app \<times> (js_error + jsval)" where
  "handleAnalyze_catch e s =
     (if error_status e = Some 402 then
        (s\<lparr>error := JStr ''Insufficient credits. Please purchase more credits to continue.''\<rparr>,
         Inr JUndefined)
      else
        (s\<lparr>error := js_or (error_data_error e) (JStr ''Analysis failed. Please try again.'')\<rparr>,
         Inr JUndefined))"

definition handleAnalyze :: "backend \<Rightarrow> app \<Rightarrow> app \<times> (js_error + jsval)" where
  "handleAnalyze b s =
     (if length (files s) = 0 then
        (s\<lparr>error := JStr ''Please select files to analyze''\<rparr>, Inr JUndefined)
      else
        try_catch_finally (handleAnalyze_body b) handleAnalyze_catch
          (\<lambda>s1. s1\<lparr>analyzing := False\<rparr>)
          (s\<lparr>analyzing := True, error := JStr []\<rparr>))"

definition handleDemoAnalysis_body :: "backend \<Rightarrow> app \<Rightarrow> app \<times> (js_error + jsval)" where
  "handleDemoAnalysis_body b s =
     (case analysis_demoAnalysis b s of
        (s1, Inl e) \<Rightarrow> (s1, Inl e)
      | (s1, Inr response) \<Rightarrow>
          (case get_prop (data response) ''success'' of
             Inl e \<Rightarrow> (s1, Inl e)
           | Inr success \<Rightarrow>
               if truthy success then (s1\<lparr>analysisResult := data response\<rparr>, Inr JUndefined)
               else (s1\<lparr>error := opt_prop (data response) ''error''\<rparr>, Inr JUndefined)))"

definition handleDemoAnalysis :: "backend \<Rightarrow> app \<Rightarrow> app \<times> (js_error + jsval)" where
  "handleDemoAnalysis b s =
     try_catch_finally (handleDemoAnalysis_body b)
       (\<lambda>e s1. (s1\<lparr>error := JStr ''Demo analysis failed. Please try again.''\<rparr>, Inr JUndefined))
       (\<lambda>s1. s1\<lparr>analyzing := False\<rparr>)
       (s\<lparr>analyzing := True, error := JStr []\<rparr>)"

definition handlePurchaseCredits_body :: "backend \<Rightarrow> jsval \<Rightarrow> app \<Rightarrow> app \<times> (js_error + jsval)" where
  "handlePurchaseCredits_body b packageId s =
     (case payments_simulatePurchase b packageId s of
        (s1, Inl e) \<Rightarrow> (s1, Inl e)
      | (s1, Inr response) \<Rightarrow>
          (case get_prop (data response) ''success'' of
             Inl e \<Rightarrow> (s1, Inl e)
           | Inr success \<Rightarrow>
               if truthy success then
                 (case refreshUser b (user s) s1 of
                    (s2, Inl e) \<Rightarrow> (s2, Inl e)
                  | (s2, Inr u) \<Rightarrow>
                      (s2\<lparr>alerts := alerts s2 @
                           [''Successfully added '' @
                            to_string (opt_prop (data response) ''credits_added'') @
                            '' credits!'']\<rparr>, Inr JUndefined))
               else (s1, Inr JUndefined)))"

definition handlePurchaseCredits :: "backend \<Rightarrow> jsval \<Rightarrow> app \<Rightarrow> app \<times> (js_error + jsval)" where
  "handlePurchaseCredits b packageId =
     try_catch_finally (handlePurchaseCredits_body b packageId)
       (\<lambda>e s. (s\<lparr>error := JStr ''Purchase failed. Please try again.''\<rparr>, Inr JUndefined))
       (\<lambda>s. s)"

section \<open>The properties, as the specification words them\<close>

text \<open>The stored credential and the stored profile are non-empty and the authenticated
  flag is true.\<close>

definition signed_in :: "app \<Rightarrow> bool" where
  "signed_in s =
     ((case getItem s ''lintiq_token'' of None \<Rightarrow> False | Some t \<Rightarrow> t \<noteq> []) \<and>
      (case getItem s ''lintiq_user'' of None \<Rightarrow> False | Some p \<Rightarrow> p \<noteq> []) \<and>
      isAuthenticated s)"

text \<open>The stored credential and the stored profile are cleared and the flag is false.\<close>

definition signed_out :: "app \<Rightarrow> bool" where
  "signed_out s =
     (getItem s ''lintiq_token'' = None \<and> getItem s ''lintiq_user'' = None \<and>
      \<not> isAuthenticated s)"

text \<open>A backend response whose \<open>success\<close> passes the code's test and that carries a
  token (a string that is not empty) and a user (a truthy value: every object is one).\<close>

definition grants_session :: "response \<Rightarrow> bool" where
  "grants_session r =
     (truthy (opt_prop (data r) ''success'') \<and>
      (case opt_prop (data r) ''token'' of JStr t \<Rightarrow> t \<noteq> [] | _ \<Rightarrow> False) \<and>
      truthy (opt_prop (data r) ''user''))"

text \<open>\<open>JSON.parse(JSON.stringify(u))\<close>.\<close>

definition json_roundtrip :: "json_parse \<Rightarrow> jsval \<Rightarrow> js_error + jsval" where
  "json_roundtrip parse u =
     parse (case stringify u of None \<Rightarrow> to_string JUndefined | Some t \<Rightarrow> t)"






text \<open>The request of the demo analysis as it leaves a browser that stores no
  credential.\<close>

definition demo_request :: request where
  "demo_request =
     \<lparr>http_method = ''POST'', url = ''/api/analysis/demo'',
      headers = [''Content-Type'' \<mapsto> ''application/json''], body = NoBody\<rparr>"

subsection \<open>Sample inputs\<close>

definition sample_user :: jsval where
  "sample_user = JObj [(''id'', JNum 7), (''email'', JStr ''dev@example.com''),
                       (''is_pro'', JBool False), (''credits'', JNum 3)]"

definition sample_credentials :: jsval where
  "sample_credentials = JObj [(''email'', JStr ''dev@example.com''), (''password'', JStr ''pw'')]"

definition fresh_app :: app where
  "fresh_app =
     \<lparr>localStorage = Map.empty, location_href = ''/'', requests = [], console = [],
      alerts = [], user = JNull, loading = False, isAuthenticated = False, files = [],
      analyzing = False, analysisResult = JNull, error = JStr [], creditPackages = JArr [],
      loadingPackages = False\<rparr>"

definition signed_in_app :: app where
  "signed_in_app =
     \<lparr>localStorage = [''lintiq_token'' \<mapsto> ''tok-1'', ''lintiq_user'' \<mapsto> ''{}''],
      location_href = ''/dashboard'', requests = [], console = [], alerts = [],
      user = sample_user, loading = False, isAuthenticated = True, files = [],
      analyzing = False, analysisResult = JObj [(''total_issues'', JNum 2)],
      error = JStr ''old message'', creditPackages = JArr [], loadingPackages = False\<rparr>"

definition app_with_files :: app where
  "app_with_files = signed_in_app\<lparr>files := [File ''main.py'' 120]\<rparr>"

definition profile_request :: request where
  "profile_request =
     \<lparr>http_method = ''GET'', url = ''/user/profile'', headers = Map.empty, body = NoBody\<rparr>"

definition replying :: "response \<Rightarrow> backend" where
  "replying r = (\<lambda>req. Reply r)"

definition backend_down :: backend where
  "backend_down = (\<lambda>req. NoReply)"

definition session_response :: response where
  "session_response =
     \<lparr>status = 200,
      data = JObj [(''success'', JBool True), (''token'', JStr ''tok-2''),
                   (''user'', sample_user)]\<rparr>"


definition unauthorized_response :: response where
  "unauthorized_response = \<lparr>status = 401, data = JObj [(''error'', JStr ''Token expired'')]\<rparr>"

definition server_error_response :: response where
  "server_error_response = \<lparr>status = 500, data = JObj [(''error'', JStr ''Internal error'')]\<rparr>"

definition payment_required_response :: response where
  "payment_required_response =
     \<lparr>status = 402, data = JObj [(''error'', JStr ''No credits left'')]\<rparr>"

definition echoing_error_response :: response where
  "echoing_error_response =
     \<lparr>status = 500,
      data = JObj [(''error'',
                    JStr ''Insufficient credits. Please purchase more credits to continue.'')]\<rparr>"

definition demo_response :: response where
  "demo_response =
     \<lparr>status = 200, data = JObj [(''success'', JBool True), (''is_demo'', JBool True),
                               (''total_issues'', JNum 4)]\<rparr>"

definition null_body_response :: response where
  "null_body_response = \<lparr>status = 200, data = JNull\<rparr>"

definition declined_purchase_response :: response where
  "declined_purchase_response = \<lparr>status = 200, data = JObj [(''success'', JBool False)]\<rparr>"

definition toy_parse :: json_parse where
  "toy_parse t = (if t = ''{}'' then Inr (JObj []) else Inl SyntaxError)"

section \<open>Facts about the JavaScript layer\<close>

lemma show_nat_nonempty: "show_nat n \<noteq> []"
  by (subst show_nat.simps) simp

lemma show_int_nonempty: "show_int i \<noteq> []"
  by (simp add: show_int_def show_nat_nonempty)

lemma quote_nonempty: "quote s \<noteq> []"
  by (simp add: quote_def)

lemma stringify_truthy: "truthy u \<Longrightarrow> \<exists>t. stringify u = Some t \<and> t \<noteq> []"
  by (cases u) (simp_all add: show_int_nonempty quote_nonempty)

lemma get_prop_truthy: "truthy (opt_prop d k) \<Longrightarrow> get_prop d k = Inr (opt_prop d k)"
  by (cases d) simp_all


section \<open>Facts about the API client\<close>

lemmas api_defs = api_post_def api_request_def outgoing_def request_interceptor_def
  response_interceptor_def response_error_interceptor_def validateStatus_def error_status_def
  getItem_def removeItem_def baseURL_def default_headers_def

lemma api_request_log: "requests (fst (api_request b config s)) = requests s @ [outgoing s config]"
  by (simp add: api_request_def Let_def response_interceptor_def response_error_interceptor_def
      removeItem_def split: reply.splits)

lemma api_request_error: "error (fst (api_request b config s)) = error s"
  by (simp add: api_request_def Let_def response_interceptor_def response_error_interceptor_def
      removeItem_def split: reply.splits)

lemma api_request_unauthorized:
  assumes "b (outgoing s config) = Reply r" "status r = 401"
  shows "api_request b config s =
           ((clearAuth (s\<lparr>requests := requests s @ [outgoing s config]\<rparr>))
              \<lparr>location_href := ''/login''\<rparr>, Inl (AxiosError (Some r)))"
  using assms
  by (simp add: api_request_def Let_def validateStatus_def response_error_interceptor_def
      error_status_def clearAuth_def)

lemma api_request_other_error:
  assumes "b (outgoing s config) = Reply r" "\<not> validateStatus (status r)" "status r \<noteq> 401"
  shows "api_request b config s =
           (s\<lparr>requests := requests s @ [outgoing s config]\<rparr>, Inl (AxiosError (Some r)))"
  using assms
  by (simp add: api_request_def Let_def response_error_interceptor_def error_status_def)

lemma api_request_no_reply:
  assumes "b (outgoing s config) = NoReply"
  shows "api_request b config s =
           (s\<lparr>requests := requests s @ [outgoing s config]\<rparr>, Inl (AxiosError None))"
  using assms
  by (simp add: api_request_def Let_def response_error_interceptor_def error_status_def)

lemma api_request_resolved:
  assumes "b (outgoing s config) = Reply r" "validateStatus (status r)"
  shows "api_request b config s = (s\<lparr>requests := requests s @ [outgoing s config]\<rparr>, Inr r)"
  using assms
  by (simp add: api_request_def Let_def response_interceptor_def)

lemma api_request_resolved_state:
  "snd (api_request b config s) = Inr r \<Longrightarrow>
     fst (api_request b config s) = s\<lparr>requests := requests s @ [outgoing s config]\<rparr>"
  by (simp add: api_request_def Let_def response_interceptor_def response_error_interceptor_def
      split: reply.splits if_splits)

lemma unauthorized_idempotent:
  assumes "error_status e1 = Some 401" "error_status e2 = Some 401"
  shows "fst (response_error_interceptor e2 (fst (response_error_interceptor e1 s))) =
         fst (response_error_interceptor e1 s)"
  using assms by (simp add: response_error_interceptor_def removeItem_def)

text \<open>
  C1. A response with status 401, to any request sent through the client, is rejected to
  the caller, and the state that comes with the rejection has neither \<open>lintiq_token\<close>
  nor \<open>lintiq_user\<close> in the storage and has the location \<open>/login\<close>. Handling a second
  401 leaves the state the first one produced. A response with another error status,
  and a missing reply, are rejected with the state as it was but for the logged request.
\<close>

theorem unauthorized_response_handling:
  "(b (outgoing s config) = Reply r \<and> status r = 401 \<longrightarrow>
      snd (api_request b config s) = Inl (AxiosError (Some r)) \<and>
      getItem (fst (api_request b config s)) ''lintiq_token'' = None \<and>
      getItem (fst (api_request b config s)) ''lintiq_user'' = None \<and>
      location_href (fst (api_request b config s)) = ''/login'') \<and>
   (error_status e1 = Some 401 \<and> error_status e2 = Some 401 \<longrightarrow>
      fst (response_error_interceptor e2 (fst (response_error_interceptor e1 s))) =
      fst (response_error_interceptor e1 s)) \<and>
   (b (outgoing s config) = Reply r \<and> \<not> validateStatus (status r) \<and> status r \<noteq> 401 \<longrightarrow>
      api_request b config s =
        (s\<lparr>requests := requests s @ [outgoing s config]\<rparr>, Inl (AxiosError (Some r)))) \<and>
   (b (outgoing s config) = NoReply \<longrightarrow>
      api_request b config s =
        (s\<lparr>requests := requests s @ [outgoing s config]\<rparr>, Inl (AxiosError None)))"
proof -
  have "b (outgoing s config) = Reply r \<Longrightarrow> status r = 401 \<Longrightarrow>
      snd (api_request b config s) = Inl (AxiosError (Some r)) \<and>
      getItem (fst (api_request b config s)) ''lintiq_token'' = None \<and>
      getItem (fst (api_request b config s)) ''lintiq_user'' = None \<and>
      location_href (fst (api_request b config s)) = ''/login''"
    by (simp add: api_request_unauthorized clearAuth_def getItem_def removeItem_def)
  then show ?thesis
    using unauthorized_idempotent api_request_other_error api_request_no_reply by blast
qed

theorem unauthorized_response_handling_witness:
  "getItem signed_in_app ''lintiq_token'' = Some ''tok-1'' \<and>
   getItem (fst (api_request (replying unauthorized_response) profile_request signed_in_app))
     ''lintiq_token'' = None \<and>
   getItem (fst (api_request (replying unauthorized_response) profile_request signed_in_app))
     ''lintiq_user'' = None \<and>
   location_href (fst (api_request (replying unauthorized_response) profile_request signed_in_app))
     = ''/login'' \<and>
   snd (api_request (replying unauthorized_response) profile_request signed_in_app)
     = Inl (AxiosError (Some unauthorized_response)) \<and>
   fst (response_error_interceptor (AxiosError (Some unauthorized_response))
      (fst (response_error_interceptor (AxiosError (Some unauthorized_response)) signed_in_app)))
     = fst (response_error_interceptor (AxiosError (Some unauthorized_response)) signed_in_app) \<and>
   localStorage (fst (api_request (replying server_error_response) profile_request signed_in_app))
     = localStorage signed_in_app \<and>
   localStorage (fst (api_request backend_down profile_request signed_in_app))
     = localStorage signed_in_app"
proof -
  have u: "status unauthorized_response = 401"
    "error_status (AxiosError (Some unauthorized_response)) = Some 401"
    by (simp_all add: unauthorized_response_def error_status_def)
  have e: "\<not> validateStatus (status server_error_response)"
    "status server_error_response \<noteq> 401"
    by (simp_all add: server_error_response_def validateStatus_def)
  have t: "getItem signed_in_app ''lintiq_token'' = Some ''tok-1''"
    by (simp add: signed_in_app_def getItem_def)
  show ?thesis
    using unauthorized_response_handling
      [of "replying unauthorized_response" signed_in_app profile_request unauthorized_response
          "AxiosError (Some unauthorized_response)" "AxiosError (Some unauthorized_response)"]
      unauthorized_response_handling
      [of "replying server_error_response" signed_in_app profile_request server_error_response]
      unauthorized_response_handling
      [of backend_down signed_in_app profile_request]
      u e t
    by (simp add: replying_def backend_down_def)
qed

text \<open>
  C7. The request that leaves through the client is the caller's request with the base
  URL and the instance's headers, and with the header \<open>Authorization: Bearer t\<close> when
  the storage holds a credential \<open>t\<close> (a string that is not empty); when it holds none,
  the client adds no header: \<open>Authorization\<close> is what the caller gave, if anything.
\<close>

theorem bearer_credential_attached:
  "requests (fst (api_request b config s)) = requests s @ [outgoing s config] \<and>
   (getItem s ''lintiq_token'' = Some t \<and> t \<noteq> [] \<longrightarrow>
      outgoing s config =
        config\<lparr>url := baseURL @ url config,
               headers := (default_headers ++ headers config)
                            (''Authorization'' \<mapsto> ''Bearer '' @ t)\<rparr>) \<and>
   (getItem s ''lintiq_token'' = None \<or> getItem s ''lintiq_token'' = Some [] \<longrightarrow>
      outgoing s config =
        config\<lparr>url := baseURL @ url config, headers := default_headers ++ headers config\<rparr> \<and>
      headers (outgoing s config) ''Authorization'' = headers config ''Authorization'')"
  by (auto simp: api_request_log outgoing_def request_interceptor_def default_headers_def
      map_add_def split: option.splits)

theorem bearer_credential_attached_witness:
  "headers (outgoing signed_in_app profile_request) ''Authorization'' = Some ''Bearer tok-1'' \<and>
   headers (outgoing fresh_app profile_request) ''Authorization'' = None \<and>
   requests (fst (api_request backend_down profile_request fresh_app)) =
     [\<lparr>http_method = ''GET'', url = ''/api/user/profile'', headers = default_headers,
       body = NoBody\<rparr>]"
proof -
  have t: "getItem signed_in_app ''lintiq_token'' = Some ''tok-1''"
    by (simp add: signed_in_app_def getItem_def)
  have n: "getItem fresh_app ''lintiq_token'' = None"
    by (simp add: fresh_app_def getItem_def)
  show ?thesis
    using bearer_credential_attached [of backend_down profile_request signed_in_app "''tok-1''"]
      bearer_credential_attached [of backend_down profile_request fresh_app] t n
    by (simp add: profile_request_def fresh_app_def baseURL_def default_headers_def)
qed

section \<open>The storage helpers\<close>

lemma getUser_setUser: "truthy u \<Longrightarrow> getUser parse (setUser u s) = json_roundtrip parse u"
  using stringify_truthy [of u]
  by (auto simp: getUser_def setUser_def getItem_def setItem_def json_roundtrip_def)

lemma getUser_setUser_null: "getUser parse (setUser JNull s) = Inr JNull"
  by (simp add: getUser_def setUser_def getItem_def removeItem_def)

lemma getUser_clearAuth: "getUser parse (clearAuth s) = Inr JNull"
  by (simp add: getUser_def clearAuth_def getItem_def removeItem_def)

text \<open>
  C9. The profile helpers form a round trip. For every truthy profile \<open>u\<close> (every object
  is truthy) \<open>getUser()\<close> after \<open>setUser(u)\<close> is \<open>JSON.parse(JSON.stringify(u))\<close>, and
  \<open>getUser()\<close> is \<open>null\<close> after \<open>setUser(null)\<close> and after \<open>clearAuth()\<close>.
\<close>

theorem profile_roundtrip:
  "(truthy u \<longrightarrow> getUser parse (setUser u s) = json_roundtrip parse u) \<and>
   getUser parse (setUser JNull s) = Inr JNull \<and>
   getUser parse (clearAuth s) = Inr JNull"
  by (simp add: getUser_setUser getUser_setUser_null getUser_clearAuth)

theorem profile_roundtrip_witness:
  "getUser toy_parse (setUser (JObj []) signed_in_app) = Inr (JObj []) \<and>
   getUser toy_parse (setUser JNull signed_in_app) = Inr JNull \<and>
   getUser toy_parse (clearAuth signed_in_app) = Inr JNull"
  using profile_roundtrip [of "JObj []" toy_parse signed_in_app]
  by (simp add: json_roundtrip_def toy_parse_def)

section \<open>The session context\<close>

lemma session_stored:
  assumes "grants_session r"
  shows "signed_in ((setUser (opt_prop (data r) ''user'')
            (setAuthToken (opt_prop (data r) ''token'') s1))
               \<lparr>user := u, isAuthenticated := True, loading := False\<rparr>)"
proof -
  obtain t where t: "opt_prop (data r) ''token'' = JStr t" "t \<noteq> []"
    using assms by (auto simp: grants_session_def split: jsval.splits)
  obtain p where p: "stringify (opt_prop (data r) ''user'') = Some p" "p \<noteq> []"
    using assms stringify_truthy by (auto simp: grants_session_def)
  have "truthy (opt_prop (data r) ''user'')"
    using assms by (simp add: grants_session_def)
  then show ?thesis
    using t p by (simp add: signed_in_def setUser_def setAuthToken_def getItem_def setItem_def)
qed

lemma grants_success:
  assumes "grants_session r"
  shows "get_prop (data r) ''success'' = Inr (opt_prop (data r) ''success'')"
    and "truthy (opt_prop (data r) ''success'')"
  using assms by (simp_all add: grants_session_def get_prop_truthy)

lemma login_signed_in:
  assumes "snd (auth_login b c (s\<lparr>loading := True\<rparr>)) = Inr r" "grants_session r"
  shows "signed_in (fst (login b c s))"
proof -
  obtain s1 where c: "auth_login b c (s\<lparr>loading := True\<rparr>) = (s1, Inr r)"
    using assms(1) by (cases "auth_login b c (s\<lparr>loading := True\<rparr>)") simp
  show ?thesis
    using session_stored [OF assms(2)] grants_success [OF assms(2)]
    by (simp add: login_def try_catch_finally_def login_body_def c Let_def)
qed

lemma register_signed_in:
  assumes "snd (auth_register b c (s\<lparr>loading := True\<rparr>)) = Inr r" "grants_session r"
  shows "signed_in (fst (register b c s))"
proof -
  obtain s1 where c: "auth_register b c (s\<lparr>loading := True\<rparr>) = (s1, Inr r)"
    using assms(1) by (cases "auth_register b c (s\<lparr>loading := True\<rparr>)") simp
  show ?thesis
    using session_stored [OF assms(2)] grants_success [OF assms(2)]
    by (simp add: register_def try_catch_finally_def register_body_def c Let_def)
qed

lemma demoLogin_signed_in:
  assumes "snd (auth_demoLogin b (s\<lparr>loading := True\<rparr>)) = Inr r" "grants_session r"
  shows "signed_in (fst (demoLogin b s))"
proof -
  obtain s1 where c: "auth_demoLogin b (s\<lparr>loading := True\<rparr>) = (s1, Inr r)"
    using assms(1) by (cases "auth_demoLogin b (s\<lparr>loading := True\<rparr>)") simp
  show ?thesis
    using session_stored [OF assms(2)] grants_success [OF assms(2)]
    by (simp add: demoLogin_def try_catch_finally_def demoLogin_body_def c Let_def)
qed

lemma logout_signed_out: "signed_out (fst (logout b s))"
  by (simp add: logout_def try_catch_finally_def logout_body_def signed_out_def clearAuth_def
      getItem_def removeItem_def console_error_def split: prod.splits sum.splits)

text \<open>
  C2. When the call of \<open>login\<close>, \<open>register\<close> or \<open>demoLogin\<close> resolves with a response
  that has \<open>success\<close> true and carries a token and a user, the operation leaves a
  non-empty stored credential, a non-empty stored profile and the authenticated flag
  true. After \<open>logout\<close>, whatever the backend did with the logout call, both stored
  entries are gone and the flag is false.
\<close>

theorem session_established_and_cleared:
  "(snd (auth_login b c (s\<lparr>loading := True\<rparr>)) = Inr r \<and> grants_session r \<longrightarrow>
      signed_in (fst (login b c s))) \<and>
   (snd (auth_register b c (s\<lparr>loading := True\<rparr>)) = Inr r \<and> grants_session r \<longrightarrow>
      signed_in (fst (register b c s))) \<and>
   (snd (auth_demoLogin b (s\<lparr>loading := True\<rparr>)) = Inr r \<and> grants_session r \<longrightarrow>
      signed_in (fst (demoLogin b s))) \<and>
   signed_out (fst (logout b s))"
  using login_signed_in register_signed_in demoLogin_signed_in logout_signed_out by blast

theorem session_established_and_cleared_witness:
  "signed_in (fst (login (replying session_response) sample_credentials fresh_app)) \<and>
   signed_in (fst (register (replying session_response) sample_credentials fresh_app)) \<and>
   signed_in (fst (demoLogin (replying session_response) fresh_app)) \<and>
   signed_out (fst (logout backend_down signed_in_app)) \<and>
   \<not> signed_in fresh_app \<and> \<not> signed_out signed_in_app"
proof -
  have g: "grants_session session_response"
    by (simp add: grants_session_def session_response_def sample_user_def)
  have l: "snd (auth_login (replying session_response) sample_credentials
                 (fresh_app\<lparr>loading := True\<rparr>)) = Inr session_response"
    by (simp add: auth_login_def api_defs replying_def session_response_def fresh_app_def)
  have r: "snd (auth_register (replying session_response) sample_credentials
                 (fresh_app\<lparr>loading := True\<rparr>)) = Inr session_response"
    by (simp add: auth_register_def api_defs replying_def session_response_def fresh_app_def)
  have d: "snd (auth_demoLogin (replying session_response)
                 (fresh_app\<lparr>loading := True\<rparr>)) = Inr session_response"
    by (simp add: auth_demoLogin_def api_defs replying_def session_response_def fresh_app_def)
  have n: "\<not> signed_in fresh_app" "\<not> signed_out signed_in_app"
    by (simp_all add: signed_in_def signed_out_def fresh_app_def signed_in_app_def getItem_def)
  show ?thesis
    using session_established_and_cleared
      [of "replying session_response" sample_credentials fresh_app session_response]
      session_established_and_cleared
      [of backend_down sample_credentials signed_in_app session_response] g l r d n
    by simp
qed







lemma refreshUser_resolves: "snd (refreshUser b captured s) \<noteq> Inl x"
  by (cases "auth_verify b s")
     (auto simp: refreshUser_def try_catch_finally_def refreshUser_body_def Let_def
       split: sum.splits)

lemma refreshUser_error: "error (fst (refreshUser b captured s)) = error s"
proof -
  have "error (fst (auth_verify b s)) = error s"
    by (simp add: auth_verify_def api_post_def api_request_error)
  then show ?thesis
    by (cases "auth_verify b s")
       (auto simp: refreshUser_def try_catch_finally_def refreshUser_body_def console_error_def
         setUser_def setItem_def removeItem_def Let_def split: sum.splits)
qed




section \<open>The dashboard\<close>

text \<open>
  C4. With no file selected, \<open>handleAnalyze\<close> sends nothing, sets the message
  \<open>Please select files to analyze\<close> and changes nothing else.
\<close>

theorem analyze_without_files:
  "files s = [] \<longrightarrow>
     handleAnalyze b s = (s\<lparr>error := JStr ''Please select files to analyze''\<rparr>, Inr JUndefined) \<and>
     requests (fst (handleAnalyze b s)) = requests s"
  by (simp add: handleAnalyze_def)

theorem analyze_without_files_witness:
  "error (fst (handleAnalyze backend_down signed_in_app)) =
     JStr ''Please select files to analyze'' \<and>
   requests (fst (handleAnalyze backend_down signed_in_app)) = [] \<and>
   analysisResult (fst (handleAnalyze backend_down signed_in_app)) =
     analysisResult signed_in_app"
proof -
  have f: "files signed_in_app = []"
    by (simp add: signed_in_app_def)
  show ?thesis
    using analyze_without_files [of signed_in_app backend_down] f
    by (simp add: signed_in_app_def)
qed

text \<open>
  C5. Selecting files, through the picker or by a drop, makes them the selected files and
  clears the displayed analysis result and the displayed error message; nothing else
  changes.
\<close>

theorem file_selection_clears:
  "handleFileSelect fs s = s\<lparr>files := fs, error := JStr [], analysisResult := JNull\<rparr> \<and>
   handleDrop fs s = s\<lparr>files := fs, error := JStr [], analysisResult := JNull\<rparr> \<and>
   files (handleFileSelect fs s) = fs \<and> analysisResult (handleFileSelect fs s) = JNull \<and>
   error (handleFileSelect fs s) = JStr [] \<and>
   files (handleDrop fs s) = fs \<and> analysisResult (handleDrop fs s) = JNull \<and>
   error (handleDrop fs s) = JStr []"
  by (simp add: handleFileSelect_def handleDrop_def)

lemma handleAnalyze_rejected:
  assumes "files s \<noteq> []"
    "snd (analysis_analyzeFiles b (analysis_formData s) (s\<lparr>analyzing := True, error := JStr []\<rparr>))
       = Inl e"
  shows "error (fst (handleAnalyze b s)) =
     (if error_status e = Some 402
      then JStr ''Insufficient credits. Please purchase more credits to continue.''
      else js_or (error_data_error e) (JStr ''Analysis failed. Please try again.''))"
proof -
  have f: "analysis_formData (s\<lparr>analyzing := True, error := JStr []\<rparr>) = analysis_formData s"
    by (simp add: analysis_formData_def)
  show ?thesis
    using assms
    by (cases "analysis_analyzeFiles b (analysis_formData s)
                 (s\<lparr>analyzing := True, error := JStr []\<rparr>)")
       (simp add: handleAnalyze_def try_catch_finally_def handleAnalyze_body_def
         handleAnalyze_catch_def f)
qed

text \<open>
  C6, as the code has it. When the analysis call is rejected with status 402 the
  dashboard displays the insufficient-credit message, whatever the body of the response
  says. When it is rejected otherwise, the dashboard displays the \<open>error\<close> of the
  response's body if that is truthy, and the generic message if not. The
  insufficient-credit message is not the generic message.
\<close>

theorem analysis_failure_message:
  "(files s \<noteq> [] \<and>
    snd (analysis_analyzeFiles b (analysis_formData s) (s\<lparr>analyzing := True, error := JStr []\<rparr>))
       = Inl e \<and> error_status e = Some 402 \<longrightarrow>
      error (fst (handleAnalyze b s)) =
        JStr ''Insufficient credits. Please purchase more credits to continue.'') \<and>
   (files s \<noteq> [] \<and>
    snd (analysis_analyzeFiles b (analysis_formData s) (s\<lparr>analyzing := True, error := JStr []\<rparr>))
       = Inl e \<and> error_status e \<noteq> Some 402 \<longrightarrow>
      error (fst (handleAnalyze b s)) =
        js_or (error_data_error e) (JStr ''Analysis failed. Please try again.'')) \<and>
   JStr ''Insufficient credits. Please purchase more credits to continue.'' \<noteq>
     JStr ''Analysis failed. Please try again.''"
  using handleAnalyze_rejected [of s b e] by simp

theorem analysis_failure_message_witness:
  "error (fst (handleAnalyze (replying payment_required_response) app_with_files)) =
     JStr ''Insufficient credits. Please purchase more credits to continue.'' \<and>
   error (fst (handleAnalyze backend_down app_with_files)) =
     JStr ''Analysis failed. Please try again.''"
proof -
  have f: "files app_with_files \<noteq> []"
    by (simp add: app_with_files_def)
  have p: "snd (analysis_analyzeFiles (replying payment_required_response)
             (analysis_formData app_with_files)
             (app_with_files\<lparr>analyzing := True, error := JStr []\<rparr>))
           = Inl (AxiosError (Some payment_required_response))"
    by (simp add: analysis_analyzeFiles_def api_defs replying_def payment_required_response_def)
  have d: "snd (analysis_analyzeFiles backend_down
             (analysis_formData app_with_files)
             (app_with_files\<lparr>analyzing := True, error := JStr []\<rparr>))
           = Inl (AxiosError None)"
    by (simp add: analysis_analyzeFiles_def api_defs backend_down_def)
  have s: "error_status (AxiosError (Some payment_required_response)) = Some 402"
    "error_status (AxiosError None) \<noteq> Some 402"
    by (simp_all add: error_status_def payment_required_response_def)
  show ?thesis
    using analysis_failure_message
        [of app_with_files "replying payment_required_response"
            "AxiosError (Some payment_required_response)"]
      analysis_failure_message [of app_with_files backend_down "AxiosError None"] f p d s
    by (simp add: error_data_error_def js_or_def)
qed

text \<open>
  C6, as it is worded, has the 402 message differ from the message of every other
  analysis failure. A response with status 500 whose body carries the same text as its
  \<open>error\<close> is another failure, and the dashboard displays the same message for it.
\<close>

theorem analysis_failure_message_counterexample:
  "status echoing_error_response \<noteq> 402 \<and>
   error (fst (handleAnalyze (replying echoing_error_response) app_with_files)) =
     JStr ''Insufficient credits. Please purchase more credits to continue.'' \<and>
   error (fst (handleAnalyze (replying payment_required_response) app_with_files)) =
     JStr ''Insufficient credits. Please purchase more credits to continue.''"
  by (simp add: handleAnalyze_def try_catch_finally_def handleAnalyze_body_def
      handleAnalyze_catch_def analysis_analyzeFiles_def analysis_formData_def api_defs
      replying_def echoing_error_response_def payment_required_response_def app_with_files_def
      signed_in_app_def error_data_error_def js_or_def sample_user_def)

lemma demo_outgoing:
  assumes "getItem s ''lintiq_token'' = None"
  shows "outgoing (s\<lparr>analyzing := True, error := JStr []\<rparr>)
           \<lparr>http_method = ''POST'', url = ''/analysis/demo'', headers = Map.empty, body = NoBody\<rparr>
         = demo_request"
  using assms
  by (simp add: outgoing_def request_interceptor_def getItem_def demo_request_def baseURL_def
      default_headers_def)

text \<open>
  C8. The demo analysis needs no stored credential. With none stored it sends one
  request, \<open>POST /api/analysis/demo\<close> with the instance's headers and no
  \<open>Authorization\<close> header; and when the backend answers that request with a 2xx
  response whose \<open>success\<close> is truthy, the dashboard displays the response's data as the
  analysis result, with no error message.
\<close>

theorem demo_analysis_without_credential:
  "(getItem s ''lintiq_token'' = None \<longrightarrow>
      requests (fst (handleDemoAnalysis b s)) = requests s @ [demo_request]) \<and>
   headers demo_request ''Authorization'' = None \<and>
   (getItem s ''lintiq_token'' = None \<and> b demo_request = Reply r \<and> validateStatus (status r) \<and>
    truthy (opt_prop (data r) ''success'') \<longrightarrow>
      handleDemoAnalysis b s =
        (s\<lparr>analyzing := False, error := JStr [], analysisResult := data r,
           requests := requests s @ [demo_request]\<rparr>, Inr JUndefined))"
proof -
  let ?s0 = "s\<lparr>analyzing := True, error := JStr []\<rparr>"
  let ?c = "\<lparr>http_method = ''POST'', url = ''/analysis/demo'', headers = Map.empty,
             body = NoBody\<rparr>"
  have call: "analysis_demoAnalysis b ?s0 = api_request b ?c ?s0"
    by (simp add: analysis_demoAnalysis_def api_post_def)
  have a: "requests (fst (handleDemoAnalysis b s)) = requests s @ [demo_request]"
    if "getItem s ''lintiq_token'' = None"
  proof -
    have "requests (fst (api_request b ?c ?s0)) = requests s @ [demo_request]"
      using api_request_log [of b ?c ?s0] demo_outgoing [OF that] by simp
    then show ?thesis
      by (cases "api_request b ?c ?s0")
         (auto simp: handleDemoAnalysis_def try_catch_finally_def handleDemoAnalysis_body_def
           call split: sum.splits)
  qed
  have c: "handleDemoAnalysis b s =
        (s\<lparr>analyzing := False, error := JStr [], analysisResult := data r,
           requests := requests s @ [demo_request]\<rparr>, Inr JUndefined)"
    if h: "getItem s ''lintiq_token'' = None" "b demo_request = Reply r"
      "validateStatus (status r)" "truthy (opt_prop (data r) ''success'')"
  proof -
    have "api_request b ?c ?s0 = (?s0\<lparr>requests := requests ?s0 @ [demo_request]\<rparr>, Inr r)"
      using api_request_resolved [of b ?s0 ?c r] demo_outgoing [OF h(1)] h(2,3) by simp
    then show ?thesis
      using get_prop_truthy [OF h(4)] h(4)
      by (simp add: handleDemoAnalysis_def try_catch_finally_def handleDemoAnalysis_body_def call)
  qed
  have "headers demo_request ''Authorization'' = None"
    by (simp add: demo_request_def)
  with a c show ?thesis by blast
qed

theorem demo_analysis_without_credential_witness:
  "getItem fresh_app ''lintiq_token'' = None \<and>
   analysisResult (fst (handleDemoAnalysis (replying demo_response) fresh_app)) =
     data demo_response \<and>
   requests (fst (handleDemoAnalysis (replying demo_response) fresh_app)) = [demo_request] \<and>
   snd (handleDemoAnalysis (replying demo_response) fresh_app) = Inr JUndefined"
proof -
  have n: "getItem fresh_app ''lintiq_token'' = None"
    by (simp add: fresh_app_def getItem_def)
  have r: "replying demo_response demo_request = Reply demo_response"
    by (simp add: replying_def)
  have v: "validateStatus (status demo_response)"
    "truthy (opt_prop (data demo_response) ''success'')"
    by (simp_all add: demo_response_def validateStatus_def)
  show ?thesis
    using demo_analysis_without_credential [of fresh_app "replying demo_response" demo_response]
      n r v
    by (simp add: fresh_app_def)
qed

lemma purchase_declined:
  assumes "snd (payments_simulatePurchase b p s) = Inr r"
    "get_prop (data r) ''success'' = Inr v" "\<not> truthy v"
  shows "\<exists>req. handlePurchaseCredits b p s =
                 (s\<lparr>requests := requests s @ [req]\<rparr>, Inr JUndefined) \<and>
               url req = ''/api/payments/simulate-purchase''"
proof -
  let ?c = "\<lparr>http_method = ''POST'', url = ''/payments/simulate-purchase'',
             headers = Map.empty, body = Json (JObj [(''package_id'', p)])\<rparr>"
  have call: "payments_simulatePurchase b p s = api_request b ?c s"
    by (simp add: payments_simulatePurchase_def api_post_def)
  have st: "fst (payments_simulatePurchase b p s) =
              s\<lparr>requests := requests s @ [outgoing s ?c]\<rparr>"
    using api_request_resolved_state [of b ?c s r] assms(1) call by simp
  have u: "url (outgoing s ?c) = ''/api/payments/simulate-purchase''"
    by (simp add: outgoing_def request_interceptor_def baseURL_def split: option.splits)
  have "handlePurchaseCredits b p s =
          (s\<lparr>requests := requests s @ [outgoing s ?c]\<rparr>, Inr JUndefined)"
    using assms st
    by (cases "payments_simulatePurchase b p s")
       (simp add: handlePurchaseCredits_def try_catch_finally_def handlePurchaseCredits_body_def)
  with u show ?thesis by blast
qed

lemma purchase_error_kept:
  assumes "snd (payments_simulatePurchase b p s) = Inr r"
    "get_prop (data r) ''success'' = Inr v"
  shows "error (fst (handlePurchaseCredits b p s)) = error s"
proof -
  obtain s1 where c: "payments_simulatePurchase b p s = (s1, Inr r)"
    using assms(1) by (cases "payments_simulatePurchase b p s") simp
  have "error (fst (payments_simulatePurchase b p s)) = error s"
    by (simp add: payments_simulatePurchase_def api_post_def api_request_error)
  then have e1: "error s1 = error s"
    by (simp add: c)
  have "snd (refreshUser b (user s) s1) \<noteq> Inl x" for x
    by (rule refreshUser_resolves)
  then show ?thesis
    using refreshUser_error [of b "user s" s1] e1 assms(2)
    by (cases "refreshUser b (user s) s1")
       (auto simp: handlePurchaseCredits_def try_catch_finally_def
         handlePurchaseCredits_body_def c split: sum.splits)
qed

lemma purchase_rejected:
  assumes "snd (payments_simulatePurchase b p s) = Inl e"
  shows "error (fst (handlePurchaseCredits b p s)) = JStr ''Purchase failed. Please try again.''"
  using assms
  by (cases "payments_simulatePurchase b p s")
     (simp add: handlePurchaseCredits_def try_catch_finally_def handlePurchaseCredits_body_def)

text \<open>
  C10, as the code has it. When the simulate-purchase call resolves and \<open>success\<close> of
  the response's body is falsy, \<open>handlePurchaseCredits\<close> changes nothing: the state is
  the one before but for the one logged request (no profile refresh follows), with no
  alert and no error message. Whenever the call resolves with a body whose \<open>success\<close>
  can be read, the error message stays as it was. The error message is set when the
  call is rejected; it is also set when the call resolves with the body \<open>null\<close>, since
  reading \<open>success\<close> then throws inside the \<open>try\<close> block.
\<close>

theorem purchase_declined_is_silent:
  "(snd (payments_simulatePurchase b p s) = Inr r \<and> get_prop (data r) ''success'' = Inr v \<and>
    \<not> truthy v \<longrightarrow>
      (\<exists>req. handlePurchaseCredits b p s =
                (s\<lparr>requests := requests s @ [req]\<rparr>, Inr JUndefined) \<and>
              url req = ''/api/payments/simulate-purchase'')) \<and>
   (snd (payments_simulatePurchase b p s) = Inr r \<and> get_prop (data r) ''success'' = Inr v \<longrightarrow>
      error (fst (handlePurchaseCredits b p s)) = error s) \<and>
   (snd (payments_simulatePurchase b p s) = Inl e \<longrightarrow>
      error (fst (handlePurchaseCredits b p s)) = JStr ''Purchase failed. Please try again.'')"
  using purchase_declined [of b p s r v] purchase_error_kept [of b p s r v]
    purchase_rejected [of b p s e] by blast

theorem purchase_declined_is_silent_witness:
  "alerts (fst (handlePurchaseCredits (replying declined_purchase_response) (JNum 1)
                  signed_in_app)) = alerts signed_in_app \<and>
   error (fst (handlePurchaseCredits (replying declined_purchase_response) (JNum 1)
                 signed_in_app)) = JStr ''old message'' \<and>
   length (requests (fst (handlePurchaseCredits (replying declined_purchase_response) (JNum 1)
                            signed_in_app))) = 1 \<and>
   error (fst (handlePurchaseCredits backend_down (JNum 1) signed_in_app)) =
     JStr ''Purchase failed. Please try again.''"
proof -
  have c: "snd (payments_simulatePurchase (replying declined_purchase_response) (JNum 1)
                 signed_in_app) = Inr declined_purchase_response"
    by (simp add: payments_simulatePurchase_def api_defs replying_def
        declined_purchase_response_def)
  have g: "get_prop (data declined_purchase_response) ''success'' = Inr (JBool False)"
    "\<not> truthy (JBool False)"
    by (simp_all add: declined_purchase_response_def)
  have d: "snd (payments_simulatePurchase backend_down (JNum 1) signed_in_app)
             = Inl (AxiosError None)"
    by (simp add: payments_simulatePurchase_def api_defs backend_down_def)
  have e: "error signed_in_app = JStr ''old message''" "requests signed_in_app = []"
    by (simp_all add: signed_in_app_def)
  show ?thesis
    using purchase_declined_is_silent
        [of "replying declined_purchase_response" "JNum 1" signed_in_app
            declined_purchase_response "JBool False"]
      purchase_declined_is_silent [of backend_down "JNum 1" signed_in_app _ _ "AxiosError None"]
      c g d e
    by auto
qed

text \<open>
  C10, as it is worded, has an error message set only when the call throws. A 2xx
  response with the body \<open>null\<close> resolves the call, and the message is set.
\<close>

theorem purchase_null_body_counterexample:
  "snd (payments_simulatePurchase (replying null_body_response) (JNum 1) fresh_app) =
     Inr null_body_response \<and>
   error fresh_app = JStr [] \<and>
   error (fst (handlePurchaseCredits (replying null_body_response) (JNum 1) fresh_app)) =
     JStr ''Purchase failed. Please try again.''"
  by (simp add: handlePurchaseCredits_def try_catch_finally_def handlePurchaseCredits_body_def
      payments_simulatePurchase_def api_defs replying_def null_body_response_def fresh_app_def)

end
